theory Spec2Isabelle
  imports Complex_Main
begin

section \<open>RoomEase trust-score engine\<close>

text \<open>
  A shallow embedding of the trust module of RoomEase (the file that starts with the
  import of \<^verbatim>\<open>TrustAction, TrustActionType, User, Chore, ChoreStatus\<close>) together
  with the Firestore helpers it calls (\<^verbatim>\<open>runFirestoreTransaction\<close>,
  \<^verbatim>\<open>updateDocument\<close>, \<^verbatim>\<open>createDocument\<close>, \<^verbatim>\<open>getDocuments\<close>).

  Scores and point values are JavaScript numbers that only ever hold integers here;
  they are modelled as \<^typ>\<open>int\<close>. An optional field (\<^verbatim>\<open>f?: T\<close>, or a value that
  may be \<^verbatim>\<open>undefined\<close>/\<^verbatim>\<open>null\<close>) is an \<^typ>\<open>'a option\<close>. Timestamps
  (\<^verbatim>\<open>createdAt\<close>, \<^verbatim>\<open>updatedAt\<close>) and generated document ids are left out
  of the records: they come from the clock and from Firestore.
\<close>

subsection \<open>Types\<close>

datatype TrustActionType =
    chore_completed
  | chore_confirmed
  | chore_disputed_valid
  | chore_disputed_invalid
  | false_completion
  | bill_paid_on_time
  | bill_paid_late
  | helpful_action
  | manual_adjustment

datatype ChoreStatus =
    pending
  | in_progress
  | completed
  | confirmed
  | disputed
  | overdue
  | skipped

datatype TrustLevel = critical | low | medium | high

datatype Capability =
    create_chore
  | dispute_chore
  | manage_bills
  | invite_members
  | delete_items

text \<open>The optional \<^verbatim>\<open>context\<close> argument of \<^verbatim>\<open>calculateTrustChange\<close>.\<close>

record Context =
  isRecurring :: "bool option"
  wasOnTime :: "bool option"
  consecutiveCount :: "int option"
  disputeWasValid :: "bool option"

subsection \<open>\<^verbatim>\<open>TRUST_CONSTANTS\<close>\<close>

definition INITIAL_SCORE :: int where "INITIAL_SCORE = 100"
definition MIN_SCORE :: int where "MIN_SCORE = 0"
definition MAX_SCORE :: int where "MAX_SCORE = 150"
definition THRESHOLD_LOW :: int where "THRESHOLD_LOW = 30"
definition THRESHOLD_MEDIUM :: int where "THRESHOLD_MEDIUM = 70"
definition THRESHOLD_HIGH :: int where "THRESHOLD_HIGH = 100"

definition POINTS_CHORE_COMPLETED :: int where "POINTS_CHORE_COMPLETED = 2"
definition POINTS_CHORE_CONFIRMED :: int where "POINTS_CHORE_CONFIRMED = 1"
definition POINTS_CHORE_DISPUTED_VALID :: int where "POINTS_CHORE_DISPUTED_VALID = - 5"
definition POINTS_CHORE_DISPUTED_INVALID :: int where "POINTS_CHORE_DISPUTED_INVALID = - 1"
definition POINTS_FALSE_COMPLETION :: int where "POINTS_FALSE_COMPLETION = - 10"
definition POINTS_BILL_PAID_ON_TIME :: int where "POINTS_BILL_PAID_ON_TIME = 3"
definition POINTS_BILL_PAID_LATE :: int where "POINTS_BILL_PAID_LATE = - 2"
definition POINTS_HELPFUL_ACTION :: int where "POINTS_HELPFUL_ACTION = 5"

subsection \<open>Score policy\<close>

definition getTrustLevel :: "int \<Rightarrow> TrustLevel" where
  "getTrustLevel score =
     (if score < THRESHOLD_LOW then critical
      else if score < THRESHOLD_MEDIUM then low
      else if score < THRESHOLD_HIGH then medium
      else high)"

fun canPerformAction :: "int \<Rightarrow> Capability \<Rightarrow> bool" where
  "canPerformAction score create_chore = (getTrustLevel score \<noteq> critical)"
| "canPerformAction score dispute_chore = (score \<ge> THRESHOLD_LOW)"
| "canPerformAction score manage_bills = (score \<ge> THRESHOLD_MEDIUM)"
| "canPerformAction score invite_members = (score \<ge> THRESHOLD_HIGH)"
| "canPerformAction score delete_items = (score \<ge> THRESHOLD_MEDIUM)"

text \<open>
  Truthiness of the optional context fields, as the source tests them:
  \<^verbatim>\<open>context?.isRecurring\<close> and \<^verbatim>\<open>context?.wasOnTime\<close> are true only for the
  value \<^verbatim>\<open>true\<close>; \<^verbatim>\<open>context?.consecutiveCount && ... >= 5\<close> needs a number
  that is present, not zero, and at least five.
\<close>

definition ctx_flag :: "Context option \<Rightarrow> (Context \<Rightarrow> bool option) \<Rightarrow> bool" where
  "ctx_flag context field =
     (case context of
        None \<Rightarrow> False
      | Some c \<Rightarrow> (case field c of None \<Rightarrow> False | Some b \<Rightarrow> b))"

definition ctx_count :: "Context option \<Rightarrow> int option" where
  "ctx_count context = (case context of None \<Rightarrow> None | Some c \<Rightarrow> consecutiveCount c)"

fun calculateTrustChange :: "TrustActionType \<Rightarrow> Context option \<Rightarrow> int" where
  "calculateTrustChange chore_completed context =
     (let basePoints = POINTS_CHORE_COMPLETED;
          basePoints = (if ctx_flag context isRecurring then basePoints + 1 else basePoints);
          basePoints =
            (case ctx_count context of
               None \<Rightarrow> basePoints
             | Some n \<Rightarrow>
                 if n \<noteq> 0 \<and> n \<ge> 5 then basePoints + min (n - 4) 3 else basePoints)
      in basePoints)"
| "calculateTrustChange chore_confirmed context = POINTS_CHORE_CONFIRMED"
| "calculateTrustChange chore_disputed_valid context = POINTS_CHORE_DISPUTED_VALID"
| "calculateTrustChange chore_disputed_invalid context = POINTS_CHORE_DISPUTED_INVALID"
| "calculateTrustChange false_completion context = POINTS_FALSE_COMPLETION"
| "calculateTrustChange bill_paid_on_time context =
     (if ctx_flag context wasOnTime then POINTS_BILL_PAID_ON_TIME else POINTS_BILL_PAID_LATE)"
| "calculateTrustChange bill_paid_late context = POINTS_BILL_PAID_LATE"
| "calculateTrustChange helpful_action context = POINTS_HELPFUL_ACTION"
| "calculateTrustChange manual_adjustment context = 0"

subsection \<open>Permission gate\<close>

record Restrictions =
  canCreateChores :: bool
  canDisputeChores :: bool
  canManageBills :: bool
  canInviteMembers :: bool
  canDeleteItems :: bool
  maxChoresPerWeek :: "int option"
  requiresConfirmation :: bool
  message :: "string option"

definition getTrustRestrictions :: "int \<Rightarrow> Restrictions" where
  "getTrustRestrictions score =
     (let level = getTrustLevel score;
          restrictions = \<lparr>
            canCreateChores = canPerformAction score create_chore,
            canDisputeChores = canPerformAction score dispute_chore,
            canManageBills = canPerformAction score manage_bills,
            canInviteMembers = canPerformAction score invite_members,
            canDeleteItems = canPerformAction score delete_items,
            maxChoresPerWeek = None,
            requiresConfirmation = (level = critical \<or> level = low),
            message = None \<rparr>
      in case level of
           critical \<Rightarrow> restrictions\<lparr>
             maxChoresPerWeek := Some 2,
             message := Some ''Your trust score is critically low. Some features are restricted.''\<rparr>
         | low \<Rightarrow> restrictions\<lparr>
             maxChoresPerWeek := Some 5,
             message := Some ''Your trust score is low. Complete chores reliably to improve it.''\<rparr>
         | medium \<Rightarrow> restrictions\<lparr>
             message := Some ''Good standing! Keep up the reliable work.''\<rparr>
         | high \<Rightarrow> restrictions\<lparr>
             message := Some ''Excellent trustworthiness! You have full privileges.''\<rparr>)"

subsection \<open>Documents and the store\<close>

text \<open>
  The fields of the \<^verbatim>\<open>users\<close> and \<^verbatim>\<open>chores\<close> documents that the trust
  module reads or writes. A user document whose \<^verbatim>\<open>trustScore\<close> field is absent
  has \<^term>\<open>None\<close> there.
\<close>

record User =
  name :: string
  trustScore :: "int option"

record Chore =
  chore_id :: string
  chore_roomId :: string
  title :: string
  assignedTo :: string
  status :: ChoreStatus
  recurring :: bool

record TrustAction =
  userId :: string
  roomId :: string
  action :: TrustActionType
  points :: int
  reason :: string
  relatedId :: "string option"
  createdBy :: "string option"

text \<open>
  The two collections the module mutates. \<^verbatim>\<open>trustActions\<close> only ever grows by
  documents with fresh ids; it is kept as the list of its documents in the order they
  were written.
\<close>

record Store =
  users :: "string \<rightharpoonup> User"
  trustActions :: "TrustAction list"

text \<open>
  The result objects. Every one of them carries \<^verbatim>\<open>error\<close>; the helpers add
  \<^verbatim>\<open>data\<close>, the trust functions add \<^verbatim>\<open>success\<close> and their own payload.
\<close>

record ErrorField =
  error :: "string option"

record 'a Fetched = ErrorField +
  data :: "'a option"

record Outcome = ErrorField +
  success :: bool

record AdjustOutcome = Outcome +
  newScore :: "int option"

record SweepOutcome = Outcome +
  bonusesApplied :: "int option"

text \<open>JavaScript truthiness of a \<^verbatim>\<open>string | null\<close>: present and not empty.\<close>

definition truthy :: "string option \<Rightarrow> bool" where
  "truthy e = (case e of None \<Rightarrow> False | Some m \<Rightarrow> m \<noteq> [])"

subsection \<open>Firestore helpers\<close>

text \<open>
  \<^verbatim>\<open>runFirestoreTransaction\<close> runs the callback and catches whatever it throws:
  it returns \<^verbatim>\<open>{ data: result, error: null }\<close> or
  \<^verbatim>\<open>{ data: null, error: error.message }\<close> and never throws itself. A callback is a
  function on the store that either throws (\<^term>\<open>Inl\<close> the message, nothing is
  written) or returns a value together with the writes it staged. The service failing
  to commit is outside the model.
\<close>

definition runFirestoreTransaction ::
    "(Store \<Rightarrow> string + ('a \<times> Store)) \<Rightarrow> Store \<Rightarrow> 'a Fetched \<times> Store" where
  "runFirestoreTransaction callback st =
     (case callback st of
        Inr (result, st') \<Rightarrow> (\<lparr>error = None, data = Some result\<rparr>, st')
      | Inl msg \<Rightarrow> (\<lparr>error = Some msg, data = None\<rparr>, st))"

text \<open>
  \<^verbatim>\<open>updateDocument('users', docId, { trustScore })\<close>: Firestore's
  \<^verbatim>\<open>updateDoc\<close> rejects when the document does not exist, and the helper turns
  the rejection into its \<^verbatim>\<open>error\<close> field.
\<close>

definition updateDocument :: "string \<Rightarrow> int \<Rightarrow> Store \<Rightarrow> ErrorField \<times> Store" where
  "updateDocument docId score st =
     (case users st docId of
        None \<Rightarrow> (\<lparr>error = Some ''No document to update''\<rparr>, st)
      | Some u \<Rightarrow>
          (\<lparr>error = None\<rparr>, st\<lparr>users := (users st)(docId \<mapsto> u\<lparr>trustScore := Some score\<rparr>)\<rparr>))"

text \<open>\<^verbatim>\<open>createDocument('trustActions', data)\<close> adds one document.\<close>

definition createDocument :: "TrustAction \<Rightarrow> Store \<Rightarrow> Store" where
  "createDocument doc st = st\<lparr>trustActions := trustActions st @ [doc]\<rparr>"

subsection \<open>Trust ledger\<close>

text \<open>
  The callback that \<^verbatim>\<open>adjustTrustScore\<close> hands to the transaction. The module
  imports five types from \<^verbatim>\<open>@/types\<close> and \<^verbatim>\<open>createDocument\<close>,
  \<^verbatim>\<open>updateDocument\<close>, \<^verbatim>\<open>getDocuments\<close> and
  \<^verbatim>\<open>runFirestoreTransaction\<close> from \<^verbatim>\<open>./firebase\<close>, and nothing else.
  The names \<^verbatim>\<open>doc\<close>, \<^verbatim>\<open>db\<close> and \<^verbatim>\<open>collection\<close> that the callback
  uses are bound neither in the module nor globally. Its first statement,
  \<^verbatim>\<open>transaction.get(doc(db, 'users', userId))\<close>, therefore throws the
  ReferenceError \<^verbatim>\<open>doc is not defined\<close> before anything is read. The statements
  after it (the test for a missing user, the bounded sum
  \<^verbatim>\<open>Math.max(MIN_SCORE, Math.min(MAX_SCORE, currentScore + pointChange))\<close>,
  \<^verbatim>\<open>transaction.update\<close> and \<^verbatim>\<open>transaction.set\<close>) are never reached, whatever
  the arguments and the store.
\<close>

definition adjust_callback ::
    "string \<Rightarrow> string \<Rightarrow> TrustActionType \<Rightarrow> string \<Rightarrow> string option \<Rightarrow> string option \<Rightarrow>
     int \<Rightarrow> Store \<Rightarrow> string + (int \<times> Store)" where
  "adjust_callback uid rid actionType rsn rel by pointChange st = Inl ''doc is not defined''"

text \<open>
  \<^verbatim>\<open>adjustTrustScore\<close>. Neither \<^verbatim>\<open>calculateTrustChange\<close> nor
  \<^verbatim>\<open>runFirestoreTransaction\<close> throws, so the \<^verbatim>\<open>catch\<close> branch is never
  taken: the function returns \<^verbatim>\<open>{ success: true, newScore: result.data }\<close> on
  every path, without looking at \<^verbatim>\<open>result.error\<close>.
\<close>

definition adjustTrustScore ::
    "string \<Rightarrow> string \<Rightarrow> TrustActionType \<Rightarrow> string \<Rightarrow> string option \<Rightarrow> string option \<Rightarrow>
     Context option \<Rightarrow> Store \<Rightarrow> AdjustOutcome \<times> Store" where
  "adjustTrustScore uid rid actionType rsn rel by context st =
     (let pointChange = calculateTrustChange actionType context;
          (result, st') =
             runFirestoreTransaction (adjust_callback uid rid actionType rsn rel by pointChange) st
      in (\<lparr>error = None, success = True, newScore = data result\<rparr>, st'))"

text \<open>
  \<^verbatim>\<open>resetTrustScore\<close>: a plain update of the user document followed by a plain
  create of the audit document (no transaction). The default values of
  \<^verbatim>\<open>newScore\<close> and \<^verbatim>\<open>reason\<close> are for the caller to fill in.
\<close>

definition resetTrustScore ::
    "string \<Rightarrow> string \<Rightarrow> int \<Rightarrow> string \<Rightarrow> string \<Rightarrow> Store \<Rightarrow> Outcome \<times> Store" where
  "resetTrustScore uid rid newScoreArg rsn resetBy st =
     (let clampedScore = max MIN_SCORE (min MAX_SCORE newScoreArg);
          (updateResult, st1) = updateDocument uid clampedScore st
      in if truthy (error updateResult)
         then (\<lparr>error = error updateResult, success = False\<rparr>, st1)
         else (\<lparr>error = None, success = True\<rparr>,
               createDocument \<lparr>userId = uid, roomId = rid, action = manual_adjustment,
                                points = clampedScore - INITIAL_SCORE, reason = rsn,
                                relatedId = None, createdBy = Some resetBy\<rparr> st1))"

subsection \<open>Action handlers\<close>

text \<open>
  \<^verbatim>\<open>handleChoreCompletion\<close>. The argument \<open>recentChores\<close> is what
  \<^verbatim>\<open>getDocuments\<close> returned for the user's chores completed in the last 30 days;
  \<^verbatim>\<open>recentChores.data?.length || 0\<close> is the count handed on as
  \<^verbatim>\<open>consecutiveCount\<close>. The handler passes on the ledger's \<^verbatim>\<open>success\<close>
  and \<^verbatim>\<open>error\<close>.
\<close>

definition handleChoreCompletion ::
    "Chore \<Rightarrow> string \<Rightarrow> Chore list Fetched \<Rightarrow> Store \<Rightarrow> Outcome \<times> Store" where
  "handleChoreCompletion chore completedBy recentChores st =
     (let count = (case data recentChores of None \<Rightarrow> 0 | Some cs \<Rightarrow> int (length cs));
          (result, st') =
             adjustTrustScore completedBy (chore_roomId chore) chore_completed
               (''Completed chore: '' @ title chore) (Some (chore_id chore)) (Some completedBy)
               (Some \<lparr>isRecurring = Some (recurring chore), wasOnTime = None,
                       consecutiveCount = Some count, disputeWasValid = None\<rparr>) st
      in (\<lparr>error = error result, success = success result\<rparr>, st'))"

text \<open>
  \<^verbatim>\<open>handleChoreDispute\<close> awaits each \<^verbatim>\<open>adjustTrustScore\<close> call, drops the
  object it resolves to, and returns \<^verbatim>\<open>{ success: true }\<close>.
\<close>

definition handleChoreDispute ::
    "Chore \<Rightarrow> string \<Rightarrow> bool \<Rightarrow> string \<Rightarrow> Store \<Rightarrow> Outcome \<times> Store" where
  "handleChoreDispute chore disputedBy isValidDispute resolution st =
     (if isValidDispute then
        (let (r1, st1) =
               adjustTrustScore (assignedTo chore) (chore_roomId chore) false_completion
                 (''False completion disputed: '' @ title chore) (Some (chore_id chore))
                 (Some disputedBy) None st
         in (\<lparr>error = None, success = True\<rparr>, st1))
      else
        (let (r1, st1) =
               adjustTrustScore disputedBy (chore_roomId chore) chore_disputed_invalid
                 (''Invalid dispute raised: '' @ title chore) (Some (chore_id chore))
                 (Some (assignedTo chore)) None st;
             (r2, st2) =
               adjustTrustScore (assignedTo chore) (chore_roomId chore) chore_confirmed
                 (''Chore completion confirmed: '' @ title chore) (Some (chore_id chore))
                 (Some disputedBy) None st1
         in (\<lparr>error = None, success = True\<rparr>, st2)))"

subsection \<open>Weekly sweep\<close>

text \<open>
  \<^verbatim>\<open>choresByUser\<close> is an object used as a dictionary from assignee to that
  assignee's chores. It is kept as an association list in the order the keys were
  first inserted; \<open>push_chore\<close> is one turn of the \<^verbatim>\<open>forEach\<close>. Assignee ids
  are ids of user documents; the property names every object inherits (such as
  \<^verbatim>\<open>constructor\<close>) are taken not to occur among them.
\<close>

fun push_chore :: "(string \<times> Chore list) list \<Rightarrow> Chore \<Rightarrow> (string \<times> Chore list) list" where
  "push_chore [] chore = [(assignedTo chore, [chore])]"
| "push_chore ((k, cs) # rest) chore =
     (if k = assignedTo chore then (k, cs @ [chore]) # rest
      else (k, cs) # push_chore rest chore)"

definition choresByUser :: "Chore list \<Rightarrow> (string \<times> Chore list) list" where
  "choresByUser chores = foldl push_chore [] chores"

text \<open>
  \<^verbatim>\<open>Object.entries\<close> lists the keys that are array indices (canonical decimal
  numerals below \<open>2^32 - 1\<close>) first, in ascending numeric order, and then the other
  string keys in insertion order.
\<close>

definition is_digit :: "char \<Rightarrow> bool" where
  "is_digit c = (c \<in> set ''0123456789'')"

definition dec_value :: "string \<Rightarrow> int" where
  "dec_value s = foldl (\<lambda>v c. 10 * v + (of_char c - 48)) 0 s"

definition array_index :: "string \<Rightarrow> int option" where
  "array_index s =
     (if s \<noteq> [] \<and> list_all is_digit s \<and> (length s = 1 \<or> hd s \<noteq> CHR ''0'')
         \<and> dec_value s < 4294967295
      then Some (dec_value s) else None)"

definition object_entries :: "(string \<times> 'a) list \<Rightarrow> (string \<times> 'a) list" where
  "object_entries kvs =
     sort_key (\<lambda>kv. the (array_index (fst kv))) (filter (\<lambda>kv. array_index (fst kv) \<noteq> None) kvs)
     @ filter (\<lambda>kv. array_index (fst kv) = None) kvs"

text \<open>Decimal rendering of a number in a template literal.\<close>

fun string_of_nat :: "nat \<Rightarrow> string" where
  "string_of_nat n =
     (if n < 10 then [''0123456789'' ! n]
      else string_of_nat (n div 10) @ [''0123456789'' ! (n mod 10)])"

declare string_of_nat.simps [simp del]

text \<open>
  The quotient \<^verbatim>\<open>completedChores.length / userChores.length\<close> is a rational; the
  source computes it in double precision and compares it with the double nearest to
  0.9. The two agree on the comparison for every pair of array lengths a browser can
  hold, so the model computes with exact rationals. \<^verbatim>\<open>Math.round\<close> rounds half
  up.
\<close>

definition completionRate :: "Chore list \<Rightarrow> rat" where
  "completionRate userChores =
     of_nat (length (filter (\<lambda>chore. status chore = completed \<or> status chore = confirmed) userChores))
       / of_nat (length userChores)"

definition qualifies :: "Chore list \<Rightarrow> bool" where
  "qualifies userChores = (completionRate userChores \<ge> 9 / 10 \<and> length userChores \<ge> 3)"

definition bonus_reason :: "Chore list \<Rightarrow> string" where
  "bonus_reason userChores =
     ''Weekly consistency bonus (''
       @ string_of_nat (nat \<lfloor>completionRate userChores * 100 + 1 / 2\<rfloor>)
       @ ''% completion)''"

text \<open>The \<^verbatim>\<open>for ... of Object.entries(choresByUser)\<close> loop, with its counter.\<close>

fun sweep_loop :: "(string \<times> Chore list) list \<Rightarrow> string \<Rightarrow> int \<Rightarrow> Store \<Rightarrow> int \<times> Store" where
  "sweep_loop [] rid applied st = (applied, st)"
| "sweep_loop ((uid, userChores) # rest) rid applied st =
     (if qualifies userChores then
        (let (r, st') =
               adjustTrustScore uid rid helpful_action (bonus_reason userChores) None
                 (Some ''system'') None st
         in sweep_loop rest rid (applied + 1) st')
      else sweep_loop rest rid applied st)"

text \<open>
  \<^verbatim>\<open>calculateWeeklyTrustBonus\<close>. The argument \<open>weeklyChores\<close> is what
  \<^verbatim>\<open>getDocuments\<close> returned for the room's chores due in the current week.
\<close>

definition calculateWeeklyTrustBonus ::
    "string \<Rightarrow> Chore list Fetched \<Rightarrow> Store \<Rightarrow> SweepOutcome \<times> Store" where
  "calculateWeeklyTrustBonus rid weeklyChores st =
     (case data weeklyChores of
        None \<Rightarrow> (\<lparr>error = error weeklyChores, success = False, bonusesApplied = None\<rparr>, st)
      | Some chores \<Rightarrow>
          if truthy (error weeklyChores)
          then (\<lparr>error = error weeklyChores, success = False, bonusesApplied = None\<rparr>, st)
          else (let (applied, st') = sweep_loop (object_entries (choresByUser chores)) rid 0 st
                in (\<lparr>error = None, success = True, bonusesApplied = Some applied\<rparr>, st')))"

section \<open>Properties\<close>

lemmas TRUST_CONSTANTS =
  INITIAL_SCORE_def MIN_SCORE_def MAX_SCORE_def
  THRESHOLD_LOW_def THRESHOLD_MEDIUM_def THRESHOLD_HIGH_def
  POINTS_CHORE_COMPLETED_def POINTS_CHORE_CONFIRMED_def
  POINTS_CHORE_DISPUTED_VALID_def POINTS_CHORE_DISPUTED_INVALID_def
  POINTS_FALSE_COMPLETION_def POINTS_BILL_PAID_ON_TIME_def
  POINTS_BILL_PAID_LATE_def POINTS_HELPFUL_ACTION_def

subsection \<open>Score policy\<close>

text \<open>
  C4. For every integer score, \<open>getTrustLevel\<close> gives \<open>critical\<close> below 30,
  \<open>low\<close> from 30 to 69, \<open>medium\<close> from 70 to 99 and \<open>high\<close> from 100 on; the
  six boundary values 29, 30, 69, 70, 99 and 100 map to critical, low, low, medium,
  medium and high.
\<close>

theorem getTrustLevel_tiers:
  "(score < 30 \<longrightarrow> getTrustLevel score = critical)
   \<and> (30 \<le> score \<and> score < 70 \<longrightarrow> getTrustLevel score = low)
   \<and> (70 \<le> score \<and> score < 100 \<longrightarrow> getTrustLevel score = medium)
   \<and> (100 \<le> score \<longrightarrow> getTrustLevel score = high)
   \<and> getTrustLevel 29 = critical \<and> getTrustLevel 30 = low \<and> getTrustLevel 69 = low
   \<and> getTrustLevel 70 = medium \<and> getTrustLevel 99 = medium \<and> getTrustLevel 100 = high"
  by (simp add: getTrustLevel_def THRESHOLD_LOW_def THRESHOLD_MEDIUM_def THRESHOLD_HIGH_def)

theorem getTrustLevel_tiers_witness:
  "(10::int) < 30 \<and> getTrustLevel 10 = critical
   \<and> (30::int) \<le> 50 \<and> (50::int) < 70 \<and> getTrustLevel 50 = low
   \<and> (70::int) \<le> 80 \<and> (80::int) < 100 \<and> getTrustLevel 80 = medium
   \<and> (100::int) \<le> 120 \<and> getTrustLevel 120 = high"
  using getTrustLevel_tiers [of 10] getTrustLevel_tiers [of 50]
        getTrustLevel_tiers [of 80] getTrustLevel_tiers [of 120]
  by simp

lemma calculateTrustChange_bounds:
  "- 10 \<le> calculateTrustChange a ctx \<and> calculateTrustChange a ctx \<le> 6"
  by (cases a) (auto simp: TRUST_CONSTANTS Let_def split: option.splits)

text \<open>
  C5. For \<open>chore_completed\<close> the delta is the base 2, plus 1 when the chore is
  recurring, plus \<open>min (consecutiveCount - 4) 3\<close> when \<open>consecutiveCount\<close> is
  present and at least 5, and nothing otherwise. Without any context the delta is 2,
  and whatever the context it lies between 2 and 6. The streak bonus is 0 at a count
  of 4, 1 at 5, 3 at 8 and still 3 at 20; a recurring chore with the full streak
  earns 6.
\<close>

theorem chore_completed_delta:
  "calculateTrustChange chore_completed
      (Some \<lparr>isRecurring = r, wasOnTime = w, consecutiveCount = c, disputeWasValid = dv\<rparr>)
     = 2 + (if r = Some True then 1 else 0)
         + (case c of None \<Rightarrow> 0 | Some n \<Rightarrow> if n \<ge> 5 then min (n - 4) 3 else 0)
   \<and> calculateTrustChange chore_completed None = 2
   \<and> 2 \<le> calculateTrustChange chore_completed ctx
   \<and> calculateTrustChange chore_completed ctx \<le> 6
   \<and> calculateTrustChange chore_completed
      (Some \<lparr>isRecurring = Some False, wasOnTime = None, consecutiveCount = Some 4, disputeWasValid = None\<rparr>) = 2 + 0
   \<and> calculateTrustChange chore_completed
      (Some \<lparr>isRecurring = Some False, wasOnTime = None, consecutiveCount = Some 5, disputeWasValid = None\<rparr>) = 2 + 1
   \<and> calculateTrustChange chore_completed
      (Some \<lparr>isRecurring = Some False, wasOnTime = None, consecutiveCount = Some 8, disputeWasValid = None\<rparr>) = 2 + 3
   \<and> calculateTrustChange chore_completed
      (Some \<lparr>isRecurring = Some False, wasOnTime = None, consecutiveCount = Some 20, disputeWasValid = None\<rparr>) = 2 + 3
   \<and> calculateTrustChange chore_completed
      (Some \<lparr>isRecurring = Some True, wasOnTime = None, consecutiveCount = Some 20, disputeWasValid = None\<rparr>) = 6"
  by (auto simp: POINTS_CHORE_COMPLETED_def ctx_flag_def ctx_count_def Let_def split: option.splits)

theorem chore_completed_delta_witness:
  "calculateTrustChange chore_completed
      (Some \<lparr>isRecurring = Some True, wasOnTime = None, consecutiveCount = Some 6, disputeWasValid = None\<rparr>)
     = 5
   \<and> calculateTrustChange chore_completed
      (Some \<lparr>isRecurring = Some False, wasOnTime = None, consecutiveCount = Some 3, disputeWasValid = None\<rparr>)
     = 2"
  using chore_completed_delta [of "Some True" None "Some 6" None]
        chore_completed_delta [of "Some False" None "Some 3" None]
  by simp

text \<open>
  C6. For \<open>bill_paid_on_time\<close> the delta is +3 when the context says
  \<open>wasOnTime\<close> is true and the late-payment penalty -2 when it says false: the
  action name alone does not fix the sign.
\<close>

theorem bill_paid_on_time_delta:
  "calculateTrustChange bill_paid_on_time
      (Some \<lparr>isRecurring = r, wasOnTime = Some True, consecutiveCount = n, disputeWasValid = dv\<rparr>) = 3
   \<and> calculateTrustChange bill_paid_on_time
      (Some \<lparr>isRecurring = r, wasOnTime = Some False, consecutiveCount = n, disputeWasValid = dv\<rparr>) = - 2"
  by (simp add: ctx_flag_def POINTS_BILL_PAID_ON_TIME_def POINTS_BILL_PAID_LATE_def)

theorem bill_paid_on_time_delta_witness:
  "calculateTrustChange bill_paid_on_time
      (Some \<lparr>isRecurring = None, wasOnTime = Some True, consecutiveCount = None, disputeWasValid = None\<rparr>)
     = 3
   \<and> calculateTrustChange bill_paid_on_time
      (Some \<lparr>isRecurring = None, wasOnTime = Some False, consecutiveCount = None, disputeWasValid = None\<rparr>)
     = calculateTrustChange bill_paid_late None"
  using bill_paid_on_time_delta [of None None None]
  by (simp add: POINTS_BILL_PAID_LATE_def)

subsection \<open>Permission gate\<close>

text \<open>
  C9. For every score, \<open>getTrustRestrictions\<close> returns the capability flags of the
  permission table (create chores unless the tier is critical, dispute chores from 30,
  manage bills from 70, invite members from 100, delete items from 70),
  \<open>requiresConfirmation\<close> exactly for the tiers critical and low,
  \<open>maxChoresPerWeek\<close> 2 for critical, 5 for low and unset for medium and high, and
  the message of the tier. The result depends on the score alone.
\<close>

theorem getTrustRestrictions_table:
  "canCreateChores (getTrustRestrictions score) = (getTrustLevel score \<noteq> critical)
   \<and> canCreateChores (getTrustRestrictions score) = canPerformAction score create_chore
   \<and> canDisputeChores (getTrustRestrictions score) = (score \<ge> 30)
   \<and> canManageBills (getTrustRestrictions score) = (score \<ge> 70)
   \<and> canInviteMembers (getTrustRestrictions score) = (score \<ge> 100)
   \<and> canDeleteItems (getTrustRestrictions score) = (score \<ge> 70)
   \<and> requiresConfirmation (getTrustRestrictions score)
       = (getTrustLevel score = critical \<or> getTrustLevel score = low)
   \<and> maxChoresPerWeek (getTrustRestrictions score)
       = (case getTrustLevel score of
            critical \<Rightarrow> Some 2 | low \<Rightarrow> Some 5 | medium \<Rightarrow> None | high \<Rightarrow> None)
   \<and> message (getTrustRestrictions score)
       = Some (case getTrustLevel score of
            critical \<Rightarrow> ''Your trust score is critically low. Some features are restricted.''
          | low \<Rightarrow> ''Your trust score is low. Complete chores reliably to improve it.''
          | medium \<Rightarrow> ''Good standing! Keep up the reliable work.''
          | high \<Rightarrow> ''Excellent trustworthiness! You have full privileges.'')"
  by (simp add: getTrustRestrictions_def Let_def THRESHOLD_LOW_def THRESHOLD_MEDIUM_def
      THRESHOLD_HIGH_def split: TrustLevel.splits)

theorem getTrustRestrictions_table_witness:
  "getTrustRestrictions 29
     = \<lparr>canCreateChores = False, canDisputeChores = False, canManageBills = False,
        canInviteMembers = False, canDeleteItems = False, maxChoresPerWeek = Some 2,
        requiresConfirmation = True,
        message = Some ''Your trust score is critically low. Some features are restricted.''\<rparr>
   \<and> getTrustRestrictions 69
     = \<lparr>canCreateChores = True, canDisputeChores = True, canManageBills = False,
        canInviteMembers = False, canDeleteItems = False, maxChoresPerWeek = Some 5,
        requiresConfirmation = True,
        message = Some ''Your trust score is low. Complete chores reliably to improve it.''\<rparr>
   \<and> getTrustRestrictions 70
     = \<lparr>canCreateChores = True, canDisputeChores = True, canManageBills = True,
        canInviteMembers = False, canDeleteItems = True, maxChoresPerWeek = None,
        requiresConfirmation = False,
        message = Some ''Good standing! Keep up the reliable work.''\<rparr>
   \<and> getTrustRestrictions 100
     = \<lparr>canCreateChores = True, canDisputeChores = True, canManageBills = True,
        canInviteMembers = True, canDeleteItems = True, maxChoresPerWeek = None,
        requiresConfirmation = False,
        message = Some ''Excellent trustworthiness! You have full privileges.''\<rparr>"
proof -
  have levels: "getTrustLevel 29 = critical" "getTrustLevel 69 = low"
    "getTrustLevel 70 = medium" "getTrustLevel 100 = high"
    by (simp_all add: getTrustLevel_def THRESHOLD_LOW_def THRESHOLD_MEDIUM_def THRESHOLD_HIGH_def)
  have eq: "\<And>a b :: Restrictions.
      canCreateChores a = canCreateChores b \<Longrightarrow> canDisputeChores a = canDisputeChores b \<Longrightarrow>
      canManageBills a = canManageBills b \<Longrightarrow> canInviteMembers a = canInviteMembers b \<Longrightarrow>
      canDeleteItems a = canDeleteItems b \<Longrightarrow> maxChoresPerWeek a = maxChoresPerWeek b \<Longrightarrow>
      requiresConfirmation a = requiresConfirmation b \<Longrightarrow> message a = message b \<Longrightarrow> a = b"
    by simp
  show ?thesis
    using getTrustRestrictions_table [of 29] getTrustRestrictions_table [of 69]
          getTrustRestrictions_table [of 70] getTrustRestrictions_table [of 100]
    by (auto simp: levels intro!: eq)
qed

subsection \<open>Trust ledger\<close>

text \<open>
  Every call of \<open>adjustTrustScore\<close> returns success with no new score and leaves
  the store as it was: the transaction fails in its callback, and the failure is not
  looked at.
\<close>

lemma runFirestoreTransaction_adjust_callback:
  "runFirestoreTransaction (adjust_callback uid rid a rsn rel by d) st
     = (\<lparr>error = Some ''doc is not defined'', data = None\<rparr>, st)"
  by (simp add: runFirestoreTransaction_def adjust_callback_def)

lemma adjustTrustScore_noop:
  "adjustTrustScore uid rid a rsn rel by ctx st
     = (\<lparr>error = None, success = True, newScore = None\<rparr>, st)"
  by (simp add: adjustTrustScore_def runFirestoreTransaction_adjust_callback Let_def)

text \<open>
  C1. The claim: for every stored score \<open>s\<close> and every action with policy delta
  \<open>d\<close>, a successful \<open>adjustTrustScore\<close> stores exactly
  \<open>max 0 (min 150 (s + d))\<close>. The code does not store it. For a user at 100 who
  completes a chore that is not recurring, with no streak (delta 2), the call returns
  success with no new score, the stored score is still 100 and no record is written,
  where the claim gives 102.
\<close>

theorem adjustTrustScore_stores_no_score:
  "adjustTrustScore ''u1'' ''r1'' chore_completed ''Completed chore: Dishes''
       (Some ''c1'') (Some ''u1'')
       (Some \<lparr>isRecurring = Some False, wasOnTime = None, consecutiveCount = Some 0,
               disputeWasValid = None\<rparr>)
       \<lparr>users = [''u1'' \<mapsto> \<lparr>name = ''Amina'', trustScore = Some 100\<rparr>], trustActions = []\<rparr>
     = (\<lparr>error = None, success = True, newScore = None\<rparr>,
        \<lparr>users = [''u1'' \<mapsto> \<lparr>name = ''Amina'', trustScore = Some 100\<rparr>], trustActions = []\<rparr>)
   \<and> max 0 (min 150 (100 + calculateTrustChange chore_completed
         (Some \<lparr>isRecurring = Some False, wasOnTime = None, consecutiveCount = Some 0,
                 disputeWasValid = None\<rparr>))) = 102"
  by (simp add: adjustTrustScore_def runFirestoreTransaction_def adjust_callback_def
      ctx_flag_def ctx_count_def POINTS_CHORE_COMPLETED_def Let_def)

text \<open>
  C2. The claim: every successful \<open>adjustTrustScore\<close> call creates exactly one
  Trust Action Record whose \<open>points\<close> is the raw policy delta, so that a user at
  score 5 hit with \<open>false_completion\<close> ends at 0 with a record of -10 points. The
  code creates no record. On that very input the policy delta is -10, the call
  returns success, the user is still at 5 and the list of records is still empty.
\<close>

theorem adjustTrustScore_creates_no_record:
  "calculateTrustChange false_completion None = - 10
   \<and> adjustTrustScore ''u1'' ''r1'' false_completion ''False completion disputed: Dishes''
       (Some ''c1'') (Some ''u2'') None
       \<lparr>users = [''u1'' \<mapsto> \<lparr>name = ''Amina'', trustScore = Some 5\<rparr>], trustActions = []\<rparr>
     = (\<lparr>error = None, success = True, newScore = None\<rparr>,
        \<lparr>users = [''u1'' \<mapsto> \<lparr>name = ''Amina'', trustScore = Some 5\<rparr>], trustActions = []\<rparr>)"
  by (simp add: adjustTrustScore_def runFirestoreTransaction_def adjust_callback_def
      POINTS_FALSE_COMPLETION_def Let_def)

text \<open>
  C10. The claim: with a stored \<open>trustScore\<close> of exactly 0, as with a missing
  field, the call with delta \<open>d\<close> stores \<open>max 0 (min 150 (100 + d))\<close>. The code
  stores nothing in either case. For \<open>chore_confirmed\<close> (delta 1) the claim gives
  101; the call returns success with no new score, a stored 0 is still 0 and a
  missing field is still missing.
\<close>

theorem adjustTrustScore_leaves_zero_and_missing:
  "max 0 (min 150 (100 + calculateTrustChange chore_confirmed None)) = 101
   \<and> adjustTrustScore ''u1'' ''r1'' chore_confirmed ''Chore completion confirmed: Bins''
       (Some ''c2'') (Some ''u2'') None
       \<lparr>users = [''u1'' \<mapsto> \<lparr>name = ''Amina'', trustScore = Some 0\<rparr>], trustActions = []\<rparr>
     = (\<lparr>error = None, success = True, newScore = None\<rparr>,
        \<lparr>users = [''u1'' \<mapsto> \<lparr>name = ''Amina'', trustScore = Some 0\<rparr>], trustActions = []\<rparr>)
   \<and> adjustTrustScore ''u1'' ''r1'' chore_confirmed ''Chore completion confirmed: Bins''
       (Some ''c2'') (Some ''u2'') None
       \<lparr>users = [''u1'' \<mapsto> \<lparr>name = ''Amina'', trustScore = None\<rparr>], trustActions = []\<rparr>
     = (\<lparr>error = None, success = True, newScore = None\<rparr>,
        \<lparr>users = [''u1'' \<mapsto> \<lparr>name = ''Amina'', trustScore = None\<rparr>], trustActions = []\<rparr>)"
  by (simp add: adjustTrustScore_def runFirestoreTransaction_def adjust_callback_def
      POINTS_CHORE_CONFIRMED_def Let_def)

text \<open>
  C7. \<open>resetTrustScore\<close> on an existing user succeeds for every requested score:
  it clamps the request into [0, 150], writes the clamped value to the user document,
  and appends one record with action \<open>manual_adjustment\<close> and
  \<open>points = clamped - 100\<close>, whatever the user's score was before. Resetting to
  120 logs 20 points.
\<close>

theorem resetTrustScore_clamps_and_logs:
  assumes "users st uid = Some u"
    and "resetTrustScore uid rid target rsn resetBy st = (r, st')"
  shows "success r \<and> error r = None
     \<and> 0 \<le> max 0 (min 150 target) \<and> max 0 (min 150 target) \<le> 150
     \<and> users st' = (users st)(uid \<mapsto> u\<lparr>trustScore := Some (max 0 (min 150 target))\<rparr>)
     \<and> trustActions st' = trustActions st @
          [\<lparr>userId = uid, roomId = rid, action = manual_adjustment,
            points = max 0 (min 150 target) - 100, reason = rsn,
            relatedId = None, createdBy = Some resetBy\<rparr>]"
  using assms
  by (auto simp: resetTrustScore_def updateDocument_def createDocument_def truthy_def
      MIN_SCORE_def MAX_SCORE_def INITIAL_SCORE_def Let_def)

theorem resetTrustScore_clamps_and_logs_witness:
  "[''u1'' \<mapsto> \<lparr>name = ''Amina'', trustScore = Some 40\<rparr>] ''u1''
       = Some \<lparr>name = ''Amina'', trustScore = Some 40\<rparr>
   \<and> users (snd (resetTrustScore ''u1'' ''r1'' 120 ''promotion'' ''admin''
        \<lparr>users = [''u1'' \<mapsto> \<lparr>name = ''Amina'', trustScore = Some 40\<rparr>], trustActions = []\<rparr>)) ''u1''
       = Some \<lparr>name = ''Amina'', trustScore = Some 120\<rparr>
   \<and> trustActions (snd (resetTrustScore ''u1'' ''r1'' 120 ''promotion'' ''admin''
        \<lparr>users = [''u1'' \<mapsto> \<lparr>name = ''Amina'', trustScore = Some 40\<rparr>], trustActions = []\<rparr>))
       = [\<lparr>userId = ''u1'', roomId = ''r1'', action = manual_adjustment, points = 20,
           reason = ''promotion'', relatedId = None, createdBy = Some ''admin''\<rparr>]
   \<and> users (snd (resetTrustScore ''u1'' ''r1'' 400 ''promotion'' ''admin''
        \<lparr>users = [''u1'' \<mapsto> \<lparr>name = ''Amina'', trustScore = Some 40\<rparr>], trustActions = []\<rparr>)) ''u1''
       = Some \<lparr>name = ''Amina'', trustScore = Some 150\<rparr>
   \<and> trustActions (snd (resetTrustScore ''u1'' ''r1'' 400 ''promotion'' ''admin''
        \<lparr>users = [''u1'' \<mapsto> \<lparr>name = ''Amina'', trustScore = Some 40\<rparr>], trustActions = []\<rparr>))
       = [\<lparr>userId = ''u1'', roomId = ''r1'', action = manual_adjustment, points = 50,
           reason = ''promotion'', relatedId = None, createdBy = Some ''admin''\<rparr>]"
  using
    resetTrustScore_clamps_and_logs
      [of "\<lparr>users = [''u1'' \<mapsto> \<lparr>name = ''Amina'', trustScore = Some 40\<rparr>], trustActions = []\<rparr>"
          "''u1''" "\<lparr>name = ''Amina'', trustScore = Some 40\<rparr>"
          "''r1''" 120 "''promotion''" "''admin''", OF _ prod.collapse [symmetric]]
    resetTrustScore_clamps_and_logs
      [of "\<lparr>users = [''u1'' \<mapsto> \<lparr>name = ''Amina'', trustScore = Some 40\<rparr>], trustActions = []\<rparr>"
          "''u1''" "\<lparr>name = ''Amina'', trustScore = Some 40\<rparr>"
          "''r1''" 400 "''promotion''" "''admin''", OF _ prod.collapse [symmetric]]
  by simp

text \<open>Without a user document the reset fails and writes nothing.\<close>

lemma resetTrustScore_missing:
  assumes "users st uid = None"
  shows "resetTrustScore uid rid target rsn resetBy st
     = (\<lparr>error = Some ''No document to update'', success = False\<rparr>, st)"
  using assms
  by (simp add: resetTrustScore_def updateDocument_def truthy_def Let_def)

subsection \<open>Action handlers\<close>

text \<open>
  C3. The claim: when a ledger call made by a handler fails, the handler reports the
  failure instead of returning success. The code does not. For a disputed chore of
  \<open>amina\<close>, disputed by \<open>dana\<close>, the transaction of the ledger call fails (with
  the error \<open>doc is not defined\<close>) and writes nothing. \<open>handleChoreDispute\<close> still
  returns success with no error, for a valid and for an invalid dispute, and the
  weekly sweep over three completed chores of \<open>amina\<close> returns success with no
  error as well.
\<close>

theorem handlers_return_success_on_ledger_failure:
  "runFirestoreTransaction
       (adjust_callback ''amina'' ''r1'' false_completion ''False completion disputed: Dishes''
          (Some ''c1'') (Some ''dana'') (calculateTrustChange false_completion None))
       \<lparr>users = [''dana'' \<mapsto> \<lparr>name = ''Dana'', trustScore = Some 100\<rparr>,
                  ''amina'' \<mapsto> \<lparr>name = ''Amina'', trustScore = Some 100\<rparr>],
         trustActions = []\<rparr>
     = (\<lparr>error = Some ''doc is not defined'', data = None\<rparr>,
        \<lparr>users = [''dana'' \<mapsto> \<lparr>name = ''Dana'', trustScore = Some 100\<rparr>,
                   ''amina'' \<mapsto> \<lparr>name = ''Amina'', trustScore = Some 100\<rparr>],
          trustActions = []\<rparr>)
   \<and> handleChoreDispute
       \<lparr>chore_id = ''c1'', chore_roomId = ''r1'', title = ''Dishes'', assignedTo = ''amina'',
         status = disputed, recurring = False\<rparr>
       ''dana'' True ''upheld''
       \<lparr>users = [''dana'' \<mapsto> \<lparr>name = ''Dana'', trustScore = Some 100\<rparr>,
                  ''amina'' \<mapsto> \<lparr>name = ''Amina'', trustScore = Some 100\<rparr>],
         trustActions = []\<rparr>
     = (\<lparr>error = None, success = True\<rparr>,
        \<lparr>users = [''dana'' \<mapsto> \<lparr>name = ''Dana'', trustScore = Some 100\<rparr>,
                   ''amina'' \<mapsto> \<lparr>name = ''Amina'', trustScore = Some 100\<rparr>],
          trustActions = []\<rparr>)
   \<and> handleChoreDispute
       \<lparr>chore_id = ''c1'', chore_roomId = ''r1'', title = ''Dishes'', assignedTo = ''amina'',
         status = disputed, recurring = False\<rparr>
       ''dana'' False ''rejected''
       \<lparr>users = [''dana'' \<mapsto> \<lparr>name = ''Dana'', trustScore = Some 100\<rparr>,
                  ''amina'' \<mapsto> \<lparr>name = ''Amina'', trustScore = Some 100\<rparr>],
         trustActions = []\<rparr>
     = (\<lparr>error = None, success = True\<rparr>,
        \<lparr>users = [''dana'' \<mapsto> \<lparr>name = ''Dana'', trustScore = Some 100\<rparr>,
                   ''amina'' \<mapsto> \<lparr>name = ''Amina'', trustScore = Some 100\<rparr>],
          trustActions = []\<rparr>)
   \<and> fst (calculateWeeklyTrustBonus ''r1''
       \<lparr>error = None, data = Some [
        \<lparr>chore_id = ''c1'', chore_roomId = ''r1'', title = ''Dishes'', assignedTo = ''amina'',
          status = completed, recurring = False\<rparr>,
        \<lparr>chore_id = ''c2'', chore_roomId = ''r1'', title = ''Bins'', assignedTo = ''amina'',
          status = completed, recurring = False\<rparr>,
        \<lparr>chore_id = ''c3'', chore_roomId = ''r1'', title = ''Floor'', assignedTo = ''amina'',
          status = confirmed, recurring = False\<rparr>]\<rparr>
       \<lparr>users = [''dana'' \<mapsto> \<lparr>name = ''Dana'', trustScore = Some 100\<rparr>,
                  ''amina'' \<mapsto> \<lparr>name = ''Amina'', trustScore = Some 100\<rparr>],
         trustActions = []\<rparr>)
     = \<lparr>error = None, success = True, bonusesApplied = Some 1\<rparr>"
  by (simp add: handleChoreDispute_def calculateWeeklyTrustBonus_def truthy_def
      choresByUser_def object_entries_def array_index_def is_digit_def qualifies_def
      completionRate_def adjustTrustScore_def runFirestoreTransaction_def
      adjust_callback_def Let_def)

text \<open>
  On every input the dispute handler returns success with no error and an unchanged
  store, and the completion handler passes on the success of the ledger call.
\<close>

lemma handleChoreDispute_always_success:
  "handleChoreDispute chore disputedBy isValidDispute resolution st
     = (\<lparr>error = None, success = True\<rparr>, st)"
  by (simp add: handleChoreDispute_def adjustTrustScore_noop)

lemma handleChoreCompletion_always_success:
  "handleChoreCompletion chore completedBy recentChores st
     = (\<lparr>error = None, success = True\<rparr>, st)"
  by (simp add: handleChoreCompletion_def adjustTrustScore_noop Let_def)

subsection \<open>Weekly sweep\<close>

text \<open>
  The grouping keeps one entry per assignee, holding that assignee's chores in their
  original order; \<open>object_entries\<close> only reorders the entries.
\<close>

lemma map_fst_push_chore:
  "map fst (push_chore g c) =
     (if assignedTo c \<in> fst ` set g then map fst g else map fst g @ [assignedTo c])"
  by (induction g c rule: push_chore.induct) auto

lemma distinct_push_chore:
  "distinct (map fst g) \<Longrightarrow> distinct (map fst (push_chore g c))"
  by (simp add: map_fst_push_chore)

lemma map_of_push_chore:
  "map_of (push_chore g c) =
     (map_of g)(assignedTo c \<mapsto> (case map_of g (assignedTo c) of None \<Rightarrow> [c] | Some cs \<Rightarrow> cs @ [c]))"
  by (induction g c rule: push_chore.induct) (auto simp: fun_eq_iff)

lemma choresByUser_snoc: "choresByUser (cs @ [c]) = push_chore (choresByUser cs) c"
  by (simp add: choresByUser_def)

lemma distinct_choresByUser: "distinct (map fst (choresByUser chores))"
  by (induction chores rule: rev_induct)
     (simp_all add: choresByUser_snoc distinct_push_chore, simp add: choresByUser_def)

lemma filter_assignee_empty:
  "u \<notin> assignedTo ` set cs \<Longrightarrow> filter (\<lambda>c. assignedTo c = u) cs = []"
  by (induction cs) auto

lemma map_of_choresByUser:
  "map_of (choresByUser chores) u =
     (if u \<in> assignedTo ` set chores then Some (filter (\<lambda>c. assignedTo c = u) chores) else None)"
proof (induction chores rule: rev_induct)
  case Nil
  show ?case by (simp add: choresByUser_def)
next
  case (snoc c cs)
  show ?case
  proof (cases "u = assignedTo c")
    case True
    then show ?thesis
      using snoc filter_assignee_empty [of u cs]
      by (simp add: choresByUser_snoc map_of_push_chore)
  next
    case False
    then show ?thesis
      using snoc by (simp add: choresByUser_snoc map_of_push_chore)
  qed
qed

lemma set_object_entries: "set (object_entries kvs) = set kvs"
  by (auto simp: object_entries_def)

lemma distinct_object_entries:
  "distinct (map fst kvs) \<Longrightarrow> distinct (map fst (object_entries kvs))"
  by (auto simp: object_entries_def distinct_map inj_on_def)

lemma map_of_object_entries:
  "distinct (map fst kvs) \<Longrightarrow> map_of (object_entries kvs) = map_of kvs"
  using distinct_object_entries [of kvs] set_object_entries [of kvs]
  by (simp add: map_of_inject_set)

lemma length_filter_card:
  assumes "distinct (map fst g)"
  shows "length (filter Q g) = card {u. \<exists>cs. map_of g u = Some cs \<and> Q (u, cs)}"
proof -
  have d: "distinct (map fst (filter Q g))"
    using assms by (rule distinct_map_filter)
  have "length (filter Q g) = length (map fst (filter Q g))" by simp
  also have "\<dots> = card (set (map fst (filter Q g)))"
    using d by (simp only: distinct_card)
  also have "set (map fst (filter Q g)) = {u. \<exists>cs. map_of g u = Some cs \<and> Q (u, cs)}"
    using assms by (auto simp: image_iff)
  finally show ?thesis .
qed

text \<open>
  The loop counts the entries that pass the threshold test and leaves the store as it
  was.
\<close>

lemma sweep_loop_result:
  "sweep_loop g rid n st = (n + int (length (filter (\<lambda>kv. qualifies (snd kv)) g)), st)"
  by (induction g rid n st rule: sweep_loop.induct) (simp_all add: adjustTrustScore_noop)

text \<open>The threshold test in whole numbers.\<close>

lemma qualifies_iff:
  "qualifies cs \<longleftrightarrow>
     9 * length cs \<le> 10 * length (filter (\<lambda>chore. status chore = completed \<or> status chore = confirmed) cs)
     \<and> 3 \<le> length cs"
proof (cases "length cs = 0")
  case True
  then show ?thesis by (simp add: qualifies_def)
next
  case False
  let ?c = "length (filter (\<lambda>chore. status chore = completed \<or> status chore = confirmed) cs)"
  have pos: "(0::rat) < of_nat (length cs)" using False by simp
  have "(9 / 10 \<le> (of_nat ?c :: rat) / of_nat (length cs))
      = ((9::rat) * of_nat (length cs) \<le> 10 * of_nat ?c)"
    using pos by (simp add: field_simps)
  also have "\<dots> = ((of_nat (9 * length cs) :: rat) \<le> of_nat (10 * ?c))"
    by simp
  also have "\<dots> = (9 * length cs \<le> 10 * ?c)"
    by (simp only: of_nat_le_iff)
  finally show ?thesis
    by (simp add: qualifies_def completionRate_def)
qed

text \<open>
  A failed fetch aborts the sweep with the error. After a fetch that worked, the
  sweep returns success and the number of assignees whose completion rate is at least
  0.9 over at least 3 chores, and the store is as it was before.
\<close>

lemma calculateWeeklyTrustBonus_fetch_failure:
  assumes "truthy (error w)"
  shows "calculateWeeklyTrustBonus rid w st
     = (\<lparr>error = error w, success = False, bonusesApplied = None\<rparr>, st)"
  using assms by (simp add: calculateWeeklyTrustBonus_def split: option.splits)

lemma calculateWeeklyTrustBonus_effect:
  assumes w: "data w = Some chores" "\<not> truthy (error w)"
  shows "calculateWeeklyTrustBonus rid w st
     = (\<lparr>error = None, success = True,
         bonusesApplied = Some (int (card
           {u \<in> assignedTo ` set chores. qualifies (filter (\<lambda>c. assignedTo c = u) chores)}))\<rparr>,
        st)"
proof -
  let ?g = "object_entries (choresByUser chores)"
  have dg: "distinct (map fst ?g)"
    by (simp add: distinct_object_entries distinct_choresByUser)
  have mg: "\<And>u. map_of ?g u =
     (if u \<in> assignedTo ` set chores then Some (filter (\<lambda>c. assignedTo c = u) chores) else None)"
    by (simp add: map_of_object_entries distinct_choresByUser map_of_choresByUser)
  have "length (filter (\<lambda>kv. qualifies (snd kv)) ?g)
      = card {u. \<exists>cs. map_of ?g u = Some cs \<and> qualifies (snd (u, cs))}"
    by (rule length_filter_card [OF dg])
  also have "{u. \<exists>cs. map_of ?g u = Some cs \<and> qualifies (snd (u, cs))}
      = {u \<in> assignedTo ` set chores. qualifies (filter (\<lambda>c. assignedTo c = u) chores)}"
    by (auto simp: mg split: if_splits)
  finally show ?thesis
    using w by (simp add: calculateWeeklyTrustBonus_def sweep_loop_result)
qed

text \<open>
  C8. The claim: the sweep applies a \<open>helpful_action\<close> bonus to an assignee exactly
  when the assignee's completion rate is at least 0.9 over at least 3 chores, and
  returns the count of bonuses applied. The threshold test and the abort on a failed
  fetch are as claimed (\<open>calculateWeeklyTrustBonus_effect\<close>,
  \<open>calculateWeeklyTrustBonus_fetch_failure\<close>), but the count returned is the number
  of assignees that pass the test, not of bonuses applied. In a week where \<open>dana\<close>
  completed 3 of 3 chores and \<open>eli\<close> 2 of 2, the sweep returns
  \<open>bonusesApplied = 1\<close> although no bonus was applied: \<open>dana\<close> is still at 100
  and no record was written.
\<close>

theorem calculateWeeklyTrustBonus_counts_failed_bonus:
  "calculateWeeklyTrustBonus ''r1''
       \<lparr>error = None, data = Some [
        \<lparr>chore_id = ''c4'', chore_roomId = ''r1'', title = ''Dishes'', assignedTo = ''dana'',
          status = completed, recurring = False\<rparr>,
        \<lparr>chore_id = ''c5'', chore_roomId = ''r1'', title = ''Bins'', assignedTo = ''dana'',
          status = completed, recurring = False\<rparr>,
        \<lparr>chore_id = ''c6'', chore_roomId = ''r1'', title = ''Floor'', assignedTo = ''dana'',
          status = completed, recurring = False\<rparr>,
        \<lparr>chore_id = ''c7'', chore_roomId = ''r1'', title = ''Dishes'', assignedTo = ''eli'',
          status = completed, recurring = False\<rparr>,
        \<lparr>chore_id = ''c8'', chore_roomId = ''r1'', title = ''Bins'', assignedTo = ''eli'',
          status = completed, recurring = False\<rparr>]\<rparr>
       \<lparr>users = [''dana'' \<mapsto> \<lparr>name = ''Dana'', trustScore = Some 100\<rparr>,
                  ''eli'' \<mapsto> \<lparr>name = ''Eli'', trustScore = Some 100\<rparr>],
         trustActions = []\<rparr>
     = (\<lparr>error = None, success = True, bonusesApplied = Some 1\<rparr>,
        \<lparr>users = [''dana'' \<mapsto> \<lparr>name = ''Dana'', trustScore = Some 100\<rparr>,
                   ''eli'' \<mapsto> \<lparr>name = ''Eli'', trustScore = Some 100\<rparr>],
          trustActions = []\<rparr>)"
  by (simp add: calculateWeeklyTrustBonus_def truthy_def choresByUser_def object_entries_def
      array_index_def is_digit_def qualifies_iff adjustTrustScore_def
      runFirestoreTransaction_def adjust_callback_def Let_def)

end
